theory Spec2Isabelle
  imports Complex_Main "HOL-Library.Word" "HOL-Library.AList" "HOL-Library.Log_Nat"
begin

section \<open>Dynamic values\<close>

text \<open>
  A Go \<open>float64\<close>: the finite values are (dyadic) rationals, kept here as exact
  rationals; the two infinities and NaN are separate values. Positive and negative
  zero compare equal in Go and are both \<open>Finite 0\<close>.
\<close>

datatype float64 = Finite rat | PosInf | NegInf | NaN

text \<open>
  The dynamic values that an \<open>interface{}\<close> holds in this package: what
  \<open>encoding/json\<close> decodes into (nil, bool, float64, string, []interface{},
  map[string]interface{}) and the Go \<open>int\<close> that the validator accepts besides
  (64 bits wide). A Go map is an association list; its keys are meant to be distinct,
  and the order of the list stands for the order in which \<open>range\<close> visits the map,
  which Go leaves open.
\<close>

datatype goval =
    VNil
  | VBool bool
  | VFloat float64
  | VInt "64 word"
  | VString string
  | VArray "goval list"
  | VMap "(string \<times> goval) list"

text \<open>A string between single quotes, as the format \<open>'%s'\<close> prints it.\<close>

definition quoted :: "string \<Rightarrow> string" where
  "quoted s = CHR 0x27 # s @ [CHR 0x27]"

section \<open>Message model (package mcp, types)\<close>

definition MCPVersion :: string where
  "MCPVersion = ''2024-11-05''"

definition ParseError :: int where "ParseError = - 32700"
definition InvalidRequest :: int where "InvalidRequest = - 32600"
definition MethodNotFound :: int where "MethodNotFound = - 32601"
definition InvalidParams :: int where "InvalidParams = - 32602"
definition InternalError :: int where "InternalError = - 32603"
definition InvalidMCPVersion :: int where "InvalidMCPVersion = - 32000"
definition UnknownCapability :: int where "UnknownCapability = - 32001"
definition ResourceNotFound :: int where "ResourceNotFound = - 32002"
definition ToolNotFound :: int where "ToolNotFound = - 32003"
definition PromptNotFound :: int where "PromptNotFound = - 32004"

record ErrorInfo =
  err_Code :: int
  err_Message :: string
  err_Data :: goval

record ServerInfo =
  srv_Name :: string
  srv_Version :: string

text \<open>
  Each capability block of \<open>ServerCapabilities\<close> is a pointer: \<open>None\<close> is the nil
  pointer, \<open>Some\<close> carries the flags of the block.
\<close>

record ServerCapabilities =
  cap_Logging :: "unit option"
  cap_Prompts :: "bool option"
  cap_Resources :: "(bool \<times> bool) option"
  cap_Tools :: "bool option"
  cap_Experimental :: "(string \<times> goval) list option"

record ClientCapabilities =
  cc_Experimental :: "(string \<times> goval) list option"
  cc_Sampling :: "(string \<times> goval) list option"

record ClientInfo =
  ci_Name :: string
  ci_Version :: string

record InitializeParams =
  ip_ProtocolVersion :: string
  ip_Capabilities :: ClientCapabilities
  ip_ClientInfo :: ClientInfo
  ip_Meta :: "(string \<times> goval) list option"

record InitializeResult =
  ir_ProtocolVersion :: string
  ir_Capabilities :: ServerCapabilities
  ir_ServerInfo :: ServerInfo
  ir_Instructions :: string

record ToolSchema =
  schema_Type :: string
  schema_Properties :: "(string \<times> goval) list option"
  schema_Required :: "string list"

record Tool =
  tool_Name :: string
  tool_Description :: string
  tool_InputSchema :: ToolSchema

record CallToolParams =
  ctp_Name :: string
  ctp_Arguments :: "(string \<times> goval) list option"

record Content =
  content_Type :: string
  content_Text :: string
  content_Data :: string
  content_MimeType :: string
  content_Blob :: goval

record CallToolResult =
  ctr_Content :: "Content list"
  ctr_IsError :: bool

record Resource =
  res_URI :: string
  res_Name :: string
  res_Description :: string
  res_MimeType :: string

record ReadResourceParams =
  rrp_URI :: string

record ResourceContents =
  rc_URI :: string
  rc_MimeType :: string
  rc_Text :: string
  rc_Blob :: string

record ReadResourceResult =
  rrr_Contents :: "ResourceContents list"

record PromptArgument =
  pa_Name :: string
  pa_Description :: string
  pa_Required :: bool

record Prompt =
  prompt_Name :: string
  prompt_Description :: string
  prompt_Arguments :: "PromptArgument list"

record GetPromptParams =
  gpp_Name :: string
  gpp_Arguments :: "(string \<times> goval) list option"

record PromptMessage =
  pm_Role :: string
  pm_Content :: "Content list"

record GetPromptResult =
  gpr_Description :: string
  gpr_Messages :: "PromptMessage list"

text \<open>
  What the dispatcher stores in the \<open>Result\<close> field of a message. The field is an
  \<open>interface{}\<close>; these are the values \<open>handleRequest\<close> puts there. Results that
  the source holds through a pointer are options, \<open>None\<close> being the nil pointer.
\<close>

datatype payload =
    NoResult
  | InitializePayload InitializeResult
  | ToolsPayload "Tool option list"
  | CallToolPayload "CallToolResult option"
  | ResourcesPayload "Resource option list"
  | ReadResourcePayload "ReadResourceResult option"
  | PromptsPayload "Prompt option list"
  | GetPromptPayload "GetPromptResult option"

text \<open>
  The envelope. \<open>msg_ID\<close> and \<open>msg_Params\<close> are \<open>interface{}\<close> fields: \<open>VNil\<close>
  is the nil interface (an absent or null JSON member). \<open>msg_Method\<close> is a string,
  empty when the member is absent. \<open>msg_Error\<close> is a pointer.
\<close>

record Message =
  msg_JSONRPC :: string
  msg_ID :: goval
  msg_Method :: string
  msg_Params :: goval
  msg_Result :: payload
  msg_Error :: "ErrorInfo option"

definition NewErrorResponse :: "goval \<Rightarrow> int \<Rightarrow> string \<Rightarrow> goval \<Rightarrow> Message" where
  "NewErrorResponse ident code message data =
     \<lparr> msg_JSONRPC = ''2.0'', msg_ID = ident, msg_Method = '''', msg_Params = VNil,
       msg_Result = NoResult,
       msg_Error = Some \<lparr> err_Code = code, err_Message = message, err_Data = data \<rparr> \<rparr>"

definition NewSuccessResponse :: "goval \<Rightarrow> payload \<Rightarrow> Message" where
  "NewSuccessResponse ident result =
     \<lparr> msg_JSONRPC = ''2.0'', msg_ID = ident, msg_Method = '''', msg_Params = VNil,
       msg_Result = result, msg_Error = None \<rparr>"

definition NewRequest :: "goval \<Rightarrow> string \<Rightarrow> goval \<Rightarrow> Message" where
  "NewRequest ident method params =
     \<lparr> msg_JSONRPC = ''2.0'', msg_ID = ident, msg_Method = method, msg_Params = params,
       msg_Result = NoResult, msg_Error = None \<rparr>"

definition NewNotification :: "string \<Rightarrow> goval \<Rightarrow> Message" where
  "NewNotification method params =
     \<lparr> msg_JSONRPC = ''2.0'', msg_ID = VNil, msg_Method = method, msg_Params = params,
       msg_Result = NoResult, msg_Error = None \<rparr>"

definition IsRequest :: "Message \<Rightarrow> bool" where
  "IsRequest m \<longleftrightarrow> msg_Method m \<noteq> '''' \<and> msg_ID m \<noteq> VNil"

definition IsNotification :: "Message \<Rightarrow> bool" where
  "IsNotification m \<longleftrightarrow> msg_Method m \<noteq> '''' \<and> msg_ID m = VNil"

definition IsResponse :: "Message \<Rightarrow> bool" where
  "IsResponse m \<longleftrightarrow> msg_Method m = '''' \<and> msg_ID m \<noteq> VNil"

definition HasError :: "Message \<Rightarrow> bool" where
  "HasError m \<longleftrightarrow> msg_Error m \<noteq> None"

text \<open>
  \<open>UnmarshalParams\<close> refuses a nil payload and otherwise sends the payload through
  \<open>json.Marshal\<close> and \<open>json.Unmarshal\<close> into the target structure. The two library
  calls together are the parameter \<open>dec\<close>: it returns the decoded structure, or the text
  of the error of either call.
\<close>

definition UnmarshalParams :: "(goval \<Rightarrow> string + 'a) \<Rightarrow> Message \<Rightarrow> string + 'a" where
  "UnmarshalParams dec m =
     (if msg_Params m = VNil then Inl ''no params to unmarshal'' else dec (msg_Params m))"

text \<open>How many of a list of conditions hold.\<close>

definition holding :: "bool list \<Rightarrow> nat" where
  "holding bs = length (filter (\<lambda>b. b) bs)"

section \<open>Dispatcher (package mcp, handler)\<close>

text \<open>
  The three handler interfaces. \<open>Definition\<close> returns a pointer, \<open>None\<close> when nil.
  \<open>Execute\<close>, \<open>Read\<close> and \<open>Generate\<close> return a result pointer or an error; the
  dispatcher only ever uses the text of that error, so an error is its text.
\<close>

record ToolHandler =
  th_Definition :: "Tool option"
  th_Execute :: "(string \<times> goval) list option \<Rightarrow> string + CallToolResult option"

record ResourceHandler =
  rh_Definition :: "Resource option"
  rh_Read :: "string \<Rightarrow> string + ReadResourceResult option"

record PromptHandler =
  ph_Definition :: "Prompt option"
  ph_Generate :: "(string \<times> goval) list option \<Rightarrow> string + GetPromptResult option"

record BaseHandler =
  serverInfo :: ServerInfo
  capabilities :: ServerCapabilities
  tools :: "(string \<times> ToolHandler) list"
  resources :: "(string \<times> ResourceHandler) list"
  prompts :: "(string \<times> PromptHandler) list"
  initialized :: bool

text \<open>The decoders of \<open>encoding/json\<close> for the four parameter structures.\<close>

record json_codec =
  dec_InitializeParams :: "goval \<Rightarrow> string + InitializeParams"
  dec_CallToolParams :: "goval \<Rightarrow> string + CallToolParams"
  dec_ReadResourceParams :: "goval \<Rightarrow> string + ReadResourceParams"
  dec_GetPromptParams :: "goval \<Rightarrow> string + GetPromptParams"

definition NewBaseHandler :: "ServerInfo \<Rightarrow> ServerCapabilities \<Rightarrow> BaseHandler" where
  "NewBaseHandler info caps =
     \<lparr> serverInfo = info, capabilities = caps, tools = [], resources = [], prompts = [],
       initialized = False \<rparr>"

text \<open>
  The registration functions return the error text (\<open>Some\<close>) or nil (\<open>None\<close>),
  together with the handler after the call.
\<close>

definition RegisterTool :: "BaseHandler \<Rightarrow> ToolHandler \<Rightarrow> string option \<times> BaseHandler" where
  "RegisterTool h handler =
     (case th_Definition handler of
        None \<Rightarrow> (Some ''tool definition cannot be nil'', h)
      | Some tool \<Rightarrow>
          if tool_Name tool = '''' then (Some ''tool name cannot be empty'', h)
          else (None, h\<lparr>tools := AList.update (tool_Name tool) handler (tools h)\<rparr>))"

definition RegisterResource :: "BaseHandler \<Rightarrow> ResourceHandler \<Rightarrow> string option \<times> BaseHandler" where
  "RegisterResource h handler =
     (case rh_Definition handler of
        None \<Rightarrow> (Some ''resource definition cannot be nil'', h)
      | Some resource \<Rightarrow>
          if res_URI resource = '''' then (Some ''resource URI cannot be empty'', h)
          else (None, h\<lparr>resources := AList.update (res_URI resource) handler (resources h)\<rparr>))"

definition RegisterPrompt :: "BaseHandler \<Rightarrow> PromptHandler \<Rightarrow> string option \<times> BaseHandler" where
  "RegisterPrompt h handler =
     (case ph_Definition handler of
        None \<Rightarrow> (Some ''prompt definition cannot be nil'', h)
      | Some prompt \<Rightarrow>
          if prompt_Name prompt = '''' then (Some ''prompt name cannot be empty'', h)
          else (None, h\<lparr>prompts := AList.update (prompt_Name prompt) handler (prompts h)\<rparr>))"

definition Initialize :: "BaseHandler \<Rightarrow> InitializeParams \<Rightarrow> string + InitializeResult" where
  "Initialize h params =
     (if ip_ProtocolVersion params \<noteq> MCPVersion
      then Inl (''unsupported protocol version: '' @ ip_ProtocolVersion params)
      else Inr \<lparr> ir_ProtocolVersion = MCPVersion, ir_Capabilities = capabilities h,
                 ir_ServerInfo = serverInfo h, ir_Instructions = '''' \<rparr>)"

definition ListTools :: "BaseHandler \<Rightarrow> string + Tool option list" where
  "ListTools h = Inr (map (\<lambda>(name, handler). th_Definition handler) (tools h))"

definition CallTool :: "BaseHandler \<Rightarrow> CallToolParams \<Rightarrow> string + CallToolResult option" where
  "CallTool h params =
     (if \<not> initialized h then Inl ''handler not initialized''
      else case map_of (tools h) (ctp_Name params) of
             None \<Rightarrow> Inl (''tool '' @ quoted (ctp_Name params) @ '' not found'')
           | Some handler \<Rightarrow>
               (case th_Execute handler (ctp_Arguments params) of
                  Inl err \<Rightarrow>
                    Inr (Some \<lparr> ctr_Content =
                                  [\<lparr> content_Type = ''text'',
                                     content_Text = ''Tool execution failed: '' @ err,
                                     content_Data = '''', content_MimeType = '''',
                                     content_Blob = VNil \<rparr>],
                                ctr_IsError = True \<rparr>)
                | Inr result \<Rightarrow> Inr result))"

definition ListResources :: "BaseHandler \<Rightarrow> string + Resource option list" where
  "ListResources h = Inr (map (\<lambda>(name, handler). rh_Definition handler) (resources h))"

definition ReadResource :: "BaseHandler \<Rightarrow> ReadResourceParams \<Rightarrow> string + ReadResourceResult option" where
  "ReadResource h params =
     (if \<not> initialized h then Inl ''handler not initialized''
      else case map_of (resources h) (rrp_URI params) of
             None \<Rightarrow> Inl (''resource '' @ quoted (rrp_URI params) @ '' not found'')
           | Some handler \<Rightarrow> rh_Read handler (rrp_URI params))"

definition ListPrompts :: "BaseHandler \<Rightarrow> string + Prompt option list" where
  "ListPrompts h = Inr (map (\<lambda>(name, handler). ph_Definition handler) (prompts h))"

definition GetPrompt :: "BaseHandler \<Rightarrow> GetPromptParams \<Rightarrow> string + GetPromptResult option" where
  "GetPrompt h params =
     (if \<not> initialized h then Inl ''handler not initialized''
      else case map_of (prompts h) (gpp_Name params) of
             None \<Rightarrow> Inl (''prompt '' @ quoted (gpp_Name params) @ '' not found'')
           | Some handler \<Rightarrow> ph_Generate handler (gpp_Arguments params))"

definition handleRequest :: "json_codec \<Rightarrow> BaseHandler \<Rightarrow> Message \<Rightarrow> Message" where
  "handleRequest js h message =
     (if msg_Method message = ''initialize'' then
        (case UnmarshalParams (dec_InitializeParams js) message of
           Inl err \<Rightarrow> NewErrorResponse (msg_ID message) InvalidParams
                        ''invalid initialize params'' (VString err)
         | Inr params \<Rightarrow>
             (case Initialize h params of
                Inl err \<Rightarrow> NewErrorResponse (msg_ID message) InternalError
                             ''initialization failed'' (VString err)
              | Inr result \<Rightarrow> NewSuccessResponse (msg_ID message) (InitializePayload result)))
      else if msg_Method message = ''tools/list'' then
        (case ListTools h of
           Inl err \<Rightarrow> NewErrorResponse (msg_ID message) InternalError
                        ''failed to list tools'' (VString err)
         | Inr ts \<Rightarrow> NewSuccessResponse (msg_ID message) (ToolsPayload ts))
      else if msg_Method message = ''tools/call'' then
        (case UnmarshalParams (dec_CallToolParams js) message of
           Inl err \<Rightarrow> NewErrorResponse (msg_ID message) InvalidParams
                        ''invalid tool call params'' (VString err)
         | Inr params \<Rightarrow>
             (case CallTool h params of
                Inl err \<Rightarrow> NewErrorResponse (msg_ID message) InternalError
                             ''tool call failed'' (VString err)
              | Inr result \<Rightarrow> NewSuccessResponse (msg_ID message) (CallToolPayload result)))
      else if msg_Method message = ''resources/list'' then
        (case ListResources h of
           Inl err \<Rightarrow> NewErrorResponse (msg_ID message) InternalError
                        ''failed to list resources'' (VString err)
         | Inr rs \<Rightarrow> NewSuccessResponse (msg_ID message) (ResourcesPayload rs))
      else if msg_Method message = ''resources/read'' then
        (case UnmarshalParams (dec_ReadResourceParams js) message of
           Inl err \<Rightarrow> NewErrorResponse (msg_ID message) InvalidParams
                        ''invalid resource read params'' (VString err)
         | Inr params \<Rightarrow>
             (case ReadResource h params of
                Inl err \<Rightarrow> NewErrorResponse (msg_ID message) InternalError
                             ''resource read failed'' (VString err)
              | Inr result \<Rightarrow> NewSuccessResponse (msg_ID message) (ReadResourcePayload result)))
      else if msg_Method message = ''prompts/list'' then
        (case ListPrompts h of
           Inl err \<Rightarrow> NewErrorResponse (msg_ID message) InternalError
                        ''failed to list prompts'' (VString err)
         | Inr ps \<Rightarrow> NewSuccessResponse (msg_ID message) (PromptsPayload ps))
      else if msg_Method message = ''prompts/get'' then
        (case UnmarshalParams (dec_GetPromptParams js) message of
           Inl err \<Rightarrow> NewErrorResponse (msg_ID message) InvalidParams
                        ''invalid prompt get params'' (VString err)
         | Inr params \<Rightarrow>
             (case GetPrompt h params of
                Inl err \<Rightarrow> NewErrorResponse (msg_ID message) InternalError
                             ''prompt get failed'' (VString err)
              | Inr result \<Rightarrow> NewSuccessResponse (msg_ID message) (GetPromptPayload result)))
      else NewErrorResponse (msg_ID message) MethodNotFound
             (''method '' @ quoted (msg_Method message) @ '' not found'') VNil)"

text \<open>
  \<open>handleNotification\<close> returns no message; what it leaves behind is the handler,
  with the flag set by \<open>initialized\<close>.
\<close>

definition handleNotification :: "BaseHandler \<Rightarrow> Message \<Rightarrow> BaseHandler \<times> Message option" where
  "handleNotification h message =
     (if msg_Method message = ''initialized'' then (h\<lparr>initialized := True\<rparr>, None)
      else if msg_Method message = ''notifications/cancelled'' then (h, None)
      else (h, None))"

text \<open>
  \<open>HandleMessage\<close> takes a message pointer (\<open>None\<close> when nil) and returns the handler
  after the call and the response pointer. Its error result is nil on every path.
\<close>

definition HandleMessage ::
    "json_codec \<Rightarrow> BaseHandler \<Rightarrow> Message option \<Rightarrow> BaseHandler \<times> Message option" where
  "HandleMessage js h message =
     (case message of
        None \<Rightarrow> (h, Some (NewErrorResponse VNil InvalidRequest ''message cannot be nil'' VNil))
      | Some m \<Rightarrow>
          if IsRequest m then (h, Some (handleRequest js h m))
          else if IsNotification m then handleNotification h m
          else (h, Some (NewErrorResponse (msg_ID m) InvalidRequest
                           ''invalid message format'' VNil)))"

section \<open>Floating-point and integer conversions of Go\<close>

text \<open>
  The comparisons of \<open>float64\<close>: every ordered comparison with NaN is false, NaN is
  equal to nothing (\<open>!=\<close> with NaN is true), the infinities lie outside the finite
  values.
\<close>

fun f64_lt :: "float64 \<Rightarrow> float64 \<Rightarrow> bool" where
  "f64_lt (Finite x) (Finite y) = (x < y)"
| "f64_lt (Finite x) PosInf = True"
| "f64_lt NegInf (Finite y) = True"
| "f64_lt NegInf PosInf = True"
| "f64_lt _ _ = False"

definition f64_gt :: "float64 \<Rightarrow> float64 \<Rightarrow> bool" where
  "f64_gt a b = f64_lt b a"

fun f64_eq :: "float64 \<Rightarrow> float64 \<Rightarrow> bool" where
  "f64_eq (Finite x) (Finite y) = (x = y)"
| "f64_eq PosInf PosInf = True"
| "f64_eq NegInf NegInf = True"
| "f64_eq _ _ = False"

definition f64_ne :: "float64 \<Rightarrow> float64 \<Rightarrow> bool" where
  "f64_ne a b = (\<not> f64_eq a b)"

text \<open>
  \<open>float64(n)\<close> for an integer \<open>n\<close>: the nearest value with a significand of 53
  bits, ties to the even significand. Integers of at most 53 bits are kept as they are.
\<close>

definition f64_round :: "int \<Rightarrow> int" where
  "f64_round n =
     (let a = \<bar>n\<bar>;
          e = nat (bitlen a - 53);
          q = a div 2 ^ e;
          r = a mod 2 ^ e;
          q' = (if 2 * r > 2 ^ e \<or> (2 * r = 2 ^ e \<and> odd q) then q + 1 else q)
      in sgn n * (q' * 2 ^ e))"

definition float64_of_int :: "int \<Rightarrow> float64" where
  "float64_of_int n = Finite (of_int (f64_round n))"

text \<open>
  \<open>int64(f)\<close> for a \<open>float64\<close>: the fraction is discarded (truncation towards zero).
  When the truncated value is not an \<open>int64\<close>, and for the infinities and NaN, the
  conversion succeeds with a value that depends on the implementation: the parameter
  \<open>conv\<close> is that choice, as a 64-bit word read in two's complement.
\<close>

definition truncate_rat :: "rat \<Rightarrow> int" where
  "truncate_rat x = (if 0 \<le> x then \<lfloor>x\<rfloor> else \<lceil>x\<rceil>)"

fun int64_of_float64 :: "(float64 \<Rightarrow> 64 word) \<Rightarrow> float64 \<Rightarrow> int" where
  "int64_of_float64 conv (Finite x) =
     (let t = truncate_rat x
      in if - (2 ^ 63) \<le> t \<and> t < 2 ^ 63 then t else sint (conv (Finite x)))"
| "int64_of_float64 conv v = sint (conv v)"

text \<open>
  The choice of amd64: the conversion instruction returns the "integer indefinite"
  value \<open>0x8000000000000000\<close> for every operand that is out of range.
\<close>

definition amd64_conv :: "float64 \<Rightarrow> 64 word" where
  "amd64_conv v = 0x8000000000000000"

section \<open>Schema validator (package mcp, validation)\<close>

text \<open>
  The errors of the validator, one constructor for each message format, with the values
  that the format prints. \<open>RuntimePanic\<close> is a run-time panic of Go (a failed type
  assertion, the hash of an unhashable map key): the call does not return.
\<close>

datatype error =
    SchemaTypeRequired
  | SchemaTypeMustBeObject string
  | SchemaPropertiesNil
  | SchemaNoProperties
  | RequiredPropertyNotFound string
  | InvalidProperty string error
  | PropertyDefinitionNil
  | PropertyMustBeMap
  | PropertyTypeRequired
  | PropertyTypeMustBeString
  | InvalidPropertyType string
  | EnumMustBeArray
  | EnumEmpty
  | EnumValueMustBeString nat
  | CannotBeNegative string
  | MustBeANumber string
  | PatternMustBeString
  | MinimumGreaterThanMaximum float64 float64
  | MustBeBooleanOrNumber string
  | UniqueItemsMustBeBoolean
  | InvalidSchema error
  | RequiredParameterMissing string
  | UnknownParameter string
  | InvalidPropertyDefinition string
  | PropertyTypeNotDefined string
  | InvalidTypeDefinition string
  | ParameterMustBeString string goval
  | ParameterMustBeNumber string goval
  | ParameterMustBeIntegerGotFloat string float64
  | ParameterMustBeInteger string goval
  | ParameterMustBeBoolean string goval
  | ParameterMustBeArray string goval
  | ParameterMustBeObject string goval
  | UnsupportedType string string
  | NotOneOf string "string list" string
  | TooShort string float64 nat
  | TooLong string float64 nat
  | BelowMinimum string float64 float64
  | AboveMaximum string float64 float64
  | TooFewItems string float64 nat
  | TooManyItems string float64 nat
  | DuplicateItem string nat
  | RuntimePanic string

text \<open>
  A function of the source that returns \<open>error\<close> returns \<open>error option\<close> here, \<open>None\<close>
  being nil. \<open>and_then a b\<close> is the sequence "if a fails return its error, then b";
  \<open>first_error f xs\<close> is the loop that returns the first error of \<open>f\<close> over \<open>xs\<close>.
\<close>

definition and_then :: "error option \<Rightarrow> error option \<Rightarrow> error option" where
  "and_then a b = (case a of Some e \<Rightarrow> Some e | None \<Rightarrow> b)"

fun first_error :: "('a \<Rightarrow> error option) \<Rightarrow> 'a list \<Rightarrow> error option" where
  "first_error f [] = None"
| "first_error f (x # xs) = (case f x of Some e \<Rightarrow> Some e | None \<Rightarrow> first_error f xs)"

text \<open>
  The check that the source writes out for \<open>minLength\<close>, \<open>maxLength\<close>, \<open>minItems\<close>,
  \<open>maxItems\<close>, \<open>minProperties\<close> and \<open>maxProperties\<close>: when the key is present its
  value must be a \<open>float64\<close> that is not below zero.
\<close>

definition nonnegative_number :: "(string \<times> goval) list \<Rightarrow> string \<Rightarrow> error option" where
  "nonnegative_number prop key =
     (case map_of prop key of
        None \<Rightarrow> None
      | Some (VFloat num) \<Rightarrow> if f64_lt num (Finite 0) then Some (CannotBeNegative key) else None
      | Some _ \<Rightarrow> Some (MustBeANumber key))"

fun enum_strings :: "nat \<Rightarrow> goval list \<Rightarrow> error option" where
  "enum_strings i [] = None"
| "enum_strings i (VString s # vals) = enum_strings (Suc i) vals"
| "enum_strings i (v # vals) = Some (EnumValueMustBeString i)"

definition validateStringProperty :: "(string \<times> goval) list \<Rightarrow> error option" where
  "validateStringProperty prop =
     and_then
       (case map_of prop ''enum'' of
          None \<Rightarrow> None
        | Some (VArray enumSlice) \<Rightarrow>
            if length enumSlice = 0 then Some EnumEmpty else enum_strings 0 enumSlice
        | Some _ \<Rightarrow> Some EnumMustBeArray)
    (and_then (nonnegative_number prop ''minLength'')
    (and_then (nonnegative_number prop ''maxLength'')
       (case map_of prop ''pattern'' of
          None \<Rightarrow> None
        | Some (VString pattern) \<Rightarrow> None
        | Some _ \<Rightarrow> Some PatternMustBeString)))"

text \<open>
  \<open>numeric_bound\<close> reads \<open>minimum\<close> or \<open>maximum\<close>: an error when the key is present
  with a value that is not a \<open>float64\<close>, otherwise the pointer that the source keeps
  (\<open>None\<close> when the key is absent).
\<close>

definition numeric_bound :: "(string \<times> goval) list \<Rightarrow> string \<Rightarrow> error + float64 option" where
  "numeric_bound prop key =
     (case map_of prop key of
        None \<Rightarrow> Inr None
      | Some (VFloat num) \<Rightarrow> Inr (Some num)
      | Some _ \<Rightarrow> Inl (MustBeANumber key))"

definition boolean_or_number :: "(string \<times> goval) list \<Rightarrow> string \<Rightarrow> error option" where
  "boolean_or_number prop key =
     (case map_of prop key of
        None \<Rightarrow> None
      | Some (VBool b) \<Rightarrow> None
      | Some (VFloat num) \<Rightarrow> None
      | Some _ \<Rightarrow> Some (MustBeBooleanOrNumber key))"

definition validateNumericProperty :: "(string \<times> goval) list \<Rightarrow> error option" where
  "validateNumericProperty prop =
     (case numeric_bound prop ''minimum'' of
        Inl e \<Rightarrow> Some e
      | Inr minimum \<Rightarrow>
          (case numeric_bound prop ''maximum'' of
             Inl e \<Rightarrow> Some e
           | Inr maximum \<Rightarrow>
               and_then
                 (case (minimum, maximum) of
                    (Some lo, Some hi) \<Rightarrow>
                      if f64_gt lo hi then Some (MinimumGreaterThanMaximum lo hi) else None
                  | _ \<Rightarrow> None)
              (and_then (boolean_or_number prop ''exclusiveMinimum'')
                        (boolean_or_number prop ''exclusiveMaximum''))))"

definition validateArrayProperty :: "(string \<times> goval) list \<Rightarrow> error option" where
  "validateArrayProperty prop =
     and_then (nonnegative_number prop ''minItems'')
    (and_then (nonnegative_number prop ''maxItems'')
       (case map_of prop ''uniqueItems'' of
          None \<Rightarrow> None
        | Some (VBool b) \<Rightarrow> None
        | Some _ \<Rightarrow> Some UniqueItemsMustBeBoolean))"

definition validateObjectProperty :: "(string \<times> goval) list \<Rightarrow> error option" where
  "validateObjectProperty prop =
     and_then (nonnegative_number prop ''minProperties'')
              (nonnegative_number prop ''maxProperties'')"

definition validTypes :: "string list" where
  "validTypes = [''string'', ''number'', ''integer'', ''boolean'', ''array'', ''object'']"

definition validateProperty :: "string \<Rightarrow> goval \<Rightarrow> error option" where
  "validateProperty name property =
     (case property of
        VNil \<Rightarrow> Some PropertyDefinitionNil
      | VMap propMap \<Rightarrow>
          (case map_of propMap ''type'' of
             None \<Rightarrow> Some PropertyTypeRequired
           | Some (VString typeStr) \<Rightarrow>
               if typeStr \<notin> set validTypes then Some (InvalidPropertyType typeStr)
               else if typeStr = ''string'' then validateStringProperty propMap
               else if typeStr = ''number'' \<or> typeStr = ''integer''
                 then validateNumericProperty propMap
               else if typeStr = ''array'' then validateArrayProperty propMap
               else if typeStr = ''object'' then validateObjectProperty propMap
               else None
           | Some _ \<Rightarrow> Some PropertyTypeMustBeString)
      | _ \<Rightarrow> Some PropertyMustBeMap)"

text \<open>
  The properties of a schema as the map that lookups and \<open>range\<close> see: a nil map has
  no entries.
\<close>

definition properties_of :: "ToolSchema \<Rightarrow> (string \<times> goval) list" where
  "properties_of schema = (case schema_Properties schema of None \<Rightarrow> [] | Some ps \<Rightarrow> ps)"

definition ValidateToolSchema :: "ToolSchema \<Rightarrow> error option" where
  "ValidateToolSchema schema =
     (if schema_Type schema = '''' then Some SchemaTypeRequired
      else if schema_Type schema \<noteq> ''object''
        then Some (SchemaTypeMustBeObject (schema_Type schema))
      else if schema_Properties schema = None then Some SchemaPropertiesNil
      else if length (properties_of schema) = 0 then Some SchemaNoProperties
      else and_then
        (first_error
           (\<lambda>required. if map_of (properties_of schema) required = None
                        then Some (RequiredPropertyNotFound required) else None)
           (schema_Required schema))
        (first_error
           (\<lambda>(propName, propDef).
               case validateProperty propName propDef of
                 Some err \<Rightarrow> Some (InvalidProperty propName err)
               | None \<Rightarrow> None)
           (properties_of schema)))"

definition validateStringValue :: "string \<Rightarrow> string \<Rightarrow> (string \<times> goval) list \<Rightarrow> error option" where
  "validateStringValue name val prop =
     and_then
       (case map_of prop ''enum'' of
          None \<Rightarrow> None
        | Some (VArray enumSlice) \<Rightarrow>
            if list_ex (\<lambda>enumVal. enumVal = VString val) enumSlice then None
            else if list_all (\<lambda>enumVal. case enumVal of VString s \<Rightarrow> True | _ \<Rightarrow> False) enumSlice
              then Some (NotOneOf name
                          (map (\<lambda>enumVal. case enumVal of VString s \<Rightarrow> s | _ \<Rightarrow> '''') enumSlice)
                          val)
            else Some (RuntimePanic ''interface conversion'')
        | Some _ \<Rightarrow> Some (RuntimePanic ''interface conversion''))
    (and_then
       (case map_of prop ''minLength'' of
          None \<Rightarrow> None
        | Some (VFloat minLenNum) \<Rightarrow>
            if f64_lt (float64_of_int (int (length val))) minLenNum
            then Some (TooShort name minLenNum (length val)) else None
        | Some _ \<Rightarrow> Some (RuntimePanic ''interface conversion''))
       (case map_of prop ''maxLength'' of
          None \<Rightarrow> None
        | Some (VFloat maxLenNum) \<Rightarrow>
            if f64_gt (float64_of_int (int (length val))) maxLenNum
            then Some (TooLong name maxLenNum (length val)) else None
        | Some _ \<Rightarrow> Some (RuntimePanic ''interface conversion'')))"

definition validateNumberValue :: "string \<Rightarrow> float64 \<Rightarrow> (string \<times> goval) list \<Rightarrow> error option" where
  "validateNumberValue name val prop =
     and_then
       (case map_of prop ''minimum'' of
          None \<Rightarrow> None
        | Some (VFloat minNum) \<Rightarrow>
            if f64_lt val minNum then Some (BelowMinimum name minNum val) else None
        | Some _ \<Rightarrow> Some (RuntimePanic ''interface conversion''))
       (case map_of prop ''maximum'' of
          None \<Rightarrow> None
        | Some (VFloat maxNum) \<Rightarrow>
            if f64_gt val maxNum then Some (AboveMaximum name maxNum val) else None
        | Some _ \<Rightarrow> Some (RuntimePanic ''interface conversion''))"

text \<open>
  The keys of the map \<open>seen\<close> are interface values: arrays and maps cannot be hashed
  (the lookup panics), two keys are equal when they have the same dynamic type and equal
  values, and a NaN is equal to no key.
\<close>

fun hashable :: "goval \<Rightarrow> bool" where
  "hashable (VArray xs) = False"
| "hashable (VMap kvs) = False"
| "hashable v = True"

fun key_eq :: "goval \<Rightarrow> goval \<Rightarrow> bool" where
  "key_eq (VFloat a) (VFloat b) = f64_eq a b"
| "key_eq v w = (v = w)"

fun unique_scan :: "string \<Rightarrow> goval list \<Rightarrow> nat \<Rightarrow> goval list \<Rightarrow> error option" where
  "unique_scan name seen i [] = None"
| "unique_scan name seen i (item # rest) =
     (if \<not> hashable item then Some (RuntimePanic ''hash of unhashable type'')
      else if list_ex (key_eq item) seen then Some (DuplicateItem name i)
      else unique_scan name (item # seen) (Suc i) rest)"

definition validateArrayValue :: "string \<Rightarrow> goval list \<Rightarrow> (string \<times> goval) list \<Rightarrow> error option" where
  "validateArrayValue name val prop =
     and_then
       (case map_of prop ''minItems'' of
          None \<Rightarrow> None
        | Some (VFloat minItemsNum) \<Rightarrow>
            if f64_lt (float64_of_int (int (length val))) minItemsNum
            then Some (TooFewItems name minItemsNum (length val)) else None
        | Some _ \<Rightarrow> Some (RuntimePanic ''interface conversion''))
    (and_then
       (case map_of prop ''maxItems'' of
          None \<Rightarrow> None
        | Some (VFloat maxItemsNum) \<Rightarrow>
            if f64_gt (float64_of_int (int (length val))) maxItemsNum
            then Some (TooManyItems name maxItemsNum (length val)) else None
        | Some _ \<Rightarrow> Some (RuntimePanic ''interface conversion''))
       (case map_of prop ''uniqueItems'' of
          None \<Rightarrow> None
        | Some (VBool shouldBeUnique) \<Rightarrow>
            if shouldBeUnique then unique_scan name [] 0 val else None
        | Some _ \<Rightarrow> Some (RuntimePanic ''interface conversion'')))"

definition validateParameterValue ::
    "(float64 \<Rightarrow> 64 word) \<Rightarrow> string \<Rightarrow> goval \<Rightarrow> goval \<Rightarrow> error option" where
  "validateParameterValue conv name val property =
     (case property of
        VMap propMap \<Rightarrow>
          (case map_of propMap ''type'' of
             None \<Rightarrow> Some (PropertyTypeNotDefined name)
           | Some (VString typeStr) \<Rightarrow>
               if typeStr = ''string'' then
                 (case val of
                    VString s \<Rightarrow> validateStringValue name s propMap
                  | _ \<Rightarrow> Some (ParameterMustBeString name val))
               else if typeStr = ''number'' then
                 (case val of
                    VFloat f \<Rightarrow> validateNumberValue name f propMap
                  | _ \<Rightarrow> Some (ParameterMustBeNumber name val))
               else if typeStr = ''integer'' then
                 (case val of
                    VFloat floatVal \<Rightarrow>
                      if f64_ne floatVal (float64_of_int (int64_of_float64 conv floatVal))
                      then Some (ParameterMustBeIntegerGotFloat name floatVal)
                      else validateNumberValue name floatVal propMap
                  | VInt intVal \<Rightarrow>
                      validateNumberValue name (float64_of_int (sint intVal)) propMap
                  | _ \<Rightarrow> Some (ParameterMustBeInteger name val))
               else if typeStr = ''boolean'' then
                 (case val of
                    VBool b \<Rightarrow> None
                  | _ \<Rightarrow> Some (ParameterMustBeBoolean name val))
               else if typeStr = ''array'' then
                 (case val of
                    VArray xs \<Rightarrow> validateArrayValue name xs propMap
                  | _ \<Rightarrow> Some (ParameterMustBeArray name val))
               else if typeStr = ''object'' then
                 (case val of
                    VMap kvs \<Rightarrow> None
                  | _ \<Rightarrow> Some (ParameterMustBeObject name val))
               else Some (UnsupportedType typeStr name)
           | Some _ \<Rightarrow> Some (InvalidTypeDefinition name))
      | _ \<Rightarrow> Some (InvalidPropertyDefinition name))"

text \<open>
  \<open>ValidateToolParameters\<close> takes the parameter map, \<open>None\<close> when it is nil; the
  source replaces a nil map by an empty one before it reads it.
\<close>

definition arguments_of :: "(string \<times> goval) list option \<Rightarrow> (string \<times> goval) list" where
  "arguments_of params = (case params of None \<Rightarrow> [] | Some p \<Rightarrow> p)"

definition ValidateToolParameters ::
    "(float64 \<Rightarrow> 64 word) \<Rightarrow> (string \<times> goval) list option \<Rightarrow> ToolSchema \<Rightarrow> error option" where
  "ValidateToolParameters conv params schema =
     (case ValidateToolSchema schema of
        Some err \<Rightarrow> Some (InvalidSchema err)
      | None \<Rightarrow>
          (let ps = arguments_of params
           in and_then
                (first_error
                   (\<lambda>required. if map_of ps required = None
                                then Some (RequiredParameterMissing required) else None)
                   (schema_Required schema))
                (first_error
                   (\<lambda>(paramName, paramValue).
                       case map_of (properties_of schema) paramName of
                         None \<Rightarrow> Some (UnknownParameter paramName)
                       | Some propDef \<Rightarrow>
                           validateParameterValue conv paramName paramValue propDef)
                   ps)))"

section \<open>Registries (packages tools and prompts)\<close>

text \<open>
  A registry holds one map from names to handlers behind a lock; the calls are
  modelled one at a time, so the registry is its map. \<open>Register\<close> returns the error
  text or nil, and the map after the call.
\<close>

definition tools_Register ::
    "(string \<times> ToolHandler) list \<Rightarrow> ToolHandler \<Rightarrow> string option \<times> (string \<times> ToolHandler) list" where
  "tools_Register r handler =
     (case th_Definition handler of
        None \<Rightarrow> (Some ''tool definition cannot be nil'', r)
      | Some tool \<Rightarrow>
          if tool_Name tool = '''' then (Some ''tool name cannot be empty'', r)
          else if map_of r (tool_Name tool) \<noteq> None
          then (Some (''tool '' @ quoted (tool_Name tool) @ '' is already registered''), r)
          else (None, AList.update (tool_Name tool) handler r))"

definition prompts_Register ::
    "(string \<times> PromptHandler) list \<Rightarrow> PromptHandler \<Rightarrow> string option \<times> (string \<times> PromptHandler) list" where
  "prompts_Register r handler =
     (case ph_Definition handler of
        None \<Rightarrow> (Some ''prompt definition cannot be nil'', r)
      | Some prompt \<Rightarrow>
          if prompt_Name prompt = '''' then (Some ''prompt name cannot be empty'', r)
          else if map_of r (prompt_Name prompt) \<noteq> None
          then (Some (''prompt '' @ quoted (prompt_Name prompt) @ '' is already registered''), r)
          else (None, AList.update (prompt_Name prompt) handler r))"

section \<open>Sample collaborators\<close>

text \<open>
  Concrete collaborators on which the statements below are evaluated: a decoder that
  reads the members of a params object by their exact names, some tools and a prompt.
\<close>

definition sample_codec :: json_codec where
  "sample_codec =
     \<lparr> dec_InitializeParams = (\<lambda>v. case v of
          VMap kvs \<Rightarrow> (case map_of kvs ''protocolVersion'' of
             Some (VString s) \<Rightarrow>
               Inr \<lparr> ip_ProtocolVersion = s,
                     ip_Capabilities = \<lparr> cc_Experimental = None, cc_Sampling = None \<rparr>,
                     ip_ClientInfo = \<lparr> ci_Name = '''', ci_Version = '''' \<rparr>,
                     ip_Meta = None \<rparr>
           | _ \<Rightarrow> Inl ''json: cannot unmarshal'')
        | _ \<Rightarrow> Inl ''json: cannot unmarshal''),
       dec_CallToolParams = (\<lambda>v. case v of
          VMap kvs \<Rightarrow> (case map_of kvs ''name'' of
             Some (VString s) \<Rightarrow> (case map_of kvs ''arguments'' of
                 None \<Rightarrow> Inr \<lparr> ctp_Name = s, ctp_Arguments = None \<rparr>
               | Some (VMap args) \<Rightarrow> Inr \<lparr> ctp_Name = s, ctp_Arguments = Some args \<rparr>
               | _ \<Rightarrow> Inl ''json: cannot unmarshal'')
           | _ \<Rightarrow> Inl ''json: cannot unmarshal'')
        | _ \<Rightarrow> Inl ''json: cannot unmarshal''),
       dec_ReadResourceParams = (\<lambda>v. case v of
          VMap kvs \<Rightarrow> (case map_of kvs ''uri'' of
             Some (VString s) \<Rightarrow> Inr \<lparr> rrp_URI = s \<rparr>
           | _ \<Rightarrow> Inl ''json: cannot unmarshal'')
        | _ \<Rightarrow> Inl ''json: cannot unmarshal''),
       dec_GetPromptParams = (\<lambda>v. case v of
          VMap kvs \<Rightarrow> (case map_of kvs ''name'' of
             Some (VString s) \<Rightarrow> Inr \<lparr> gpp_Name = s, gpp_Arguments = None \<rparr>
           | _ \<Rightarrow> Inl ''json: cannot unmarshal'')
        | _ \<Rightarrow> Inl ''json: cannot unmarshal'') \<rparr>"

definition text_result :: "string \<Rightarrow> bool \<Rightarrow> CallToolResult" where
  "text_result s e =
     \<lparr> ctr_Content = [\<lparr> content_Type = ''text'', content_Text = s, content_Data = '''',
                         content_MimeType = '''', content_Blob = VNil \<rparr>],
       ctr_IsError = e \<rparr>"

definition sample_schema :: ToolSchema where
  "sample_schema =
     \<lparr> schema_Type = ''object'',
       schema_Properties = Some [(''text'', VMap [(''type'', VString ''string'')])],
       schema_Required = [''text''] \<rparr>"

definition limit_property :: "(string \<times> goval) list" where
  "limit_property =
     [(''type'', VString ''integer''), (''minimum'', VFloat (Finite 1)),
      (''maximum'', VFloat (Finite 100))]"

definition search_schema :: ToolSchema where
  "search_schema =
     \<lparr> schema_Type = ''object'',
       schema_Properties = Some [(''query'', VMap [(''type'', VString ''string'')]),
                                 (''limit'', VMap limit_property)],
       schema_Required = [''query''] \<rparr>"

definition echo_tool :: ToolHandler where
  "echo_tool =
     \<lparr> th_Definition = Some \<lparr> tool_Name = ''echo'', tool_Description = ''echoes'',
                              tool_InputSchema = sample_schema \<rparr>,
       th_Execute = (\<lambda>args. Inr (Some (text_result ''echo'' False))) \<rparr>"

definition echo_tool2 :: ToolHandler where
  "echo_tool2 =
     \<lparr> th_Definition = Some \<lparr> tool_Name = ''echo'', tool_Description = ''echoes twice'',
                              tool_InputSchema = sample_schema \<rparr>,
       th_Execute = (\<lambda>args. Inr (Some (text_result ''echo echo'' False))) \<rparr>"

definition faulty_tool :: ToolHandler where
  "faulty_tool =
     \<lparr> th_Definition = Some \<lparr> tool_Name = ''faulty'', tool_Description = ''always faults'',
                              tool_InputSchema = sample_schema \<rparr>,
       th_Execute = (\<lambda>args. Inl ''connection refused'') \<rparr>"

definition unnamed_tool :: ToolHandler where
  "unnamed_tool =
     \<lparr> th_Definition = Some \<lparr> tool_Name = '''', tool_Description = ''no name'',
                              tool_InputSchema = sample_schema \<rparr>,
       th_Execute = (\<lambda>args. Inr None) \<rparr>"

definition sample_prompt :: PromptHandler where
  "sample_prompt =
     \<lparr> ph_Definition = Some \<lparr> prompt_Name = ''summary'', prompt_Description = '''',
                              prompt_Arguments = [] \<rparr>,
       ph_Generate = (\<lambda>args. Inr None) \<rparr>"

definition sample_handler :: BaseHandler where
  "sample_handler =
     (NewBaseHandler \<lparr> srv_Name = ''srv'', srv_Version = ''1.0.0'' \<rparr>
        \<lparr> cap_Logging = None, cap_Prompts = None, cap_Resources = None,
          cap_Tools = Some False, cap_Experimental = None \<rparr>)
     \<lparr> tools := [(''echo'', echo_tool), (''faulty'', faulty_tool)] \<rparr>"

definition ready_handler :: BaseHandler where
  "ready_handler = sample_handler \<lparr> initialized := True \<rparr>"

definition call_request :: "string \<Rightarrow> string \<Rightarrow> Message" where
  "call_request ident name =
     NewRequest (VString ident) ''tools/call''
       (VMap [(''name'', VString name), (''arguments'', VMap [])])"

text \<open>The error code of a response, if it is an error response.\<close>

definition response_code :: "Message option \<Rightarrow> int option" where
  "response_code r = (case r of None \<Rightarrow> None | Some m \<Rightarrow> map_option err_Code (msg_Error m))"

section \<open>Facts about the dispatcher shared by the statements below\<close>

lemma HandleMessage_tools_call:
  assumes "IsRequest m" "msg_Method m = ''tools/call''"
    "UnmarshalParams (dec_CallToolParams js) m = Inr p"
  shows "HandleMessage js h (Some m) =
    (h, Some (case CallTool h p of
                Inl err \<Rightarrow> NewErrorResponse (msg_ID m) InternalError ''tool call failed'' (VString err)
              | Inr result \<Rightarrow> NewSuccessResponse (msg_ID m) (CallToolPayload result)))"
  using assms by (simp add: HandleMessage_def handleRequest_def)


lemma call_request_IsRequest: "IsRequest (call_request i n)"
  by (simp add: call_request_def NewRequest_def IsRequest_def)

lemma call_request_Method: "msg_Method (call_request i n) = ''tools/call''"
  by (simp add: call_request_def NewRequest_def)

lemma call_request_ID: "msg_ID (call_request i n) = VString i"
  by (simp add: call_request_def NewRequest_def)

lemma call_request_decodes:
  "UnmarshalParams (dec_CallToolParams sample_codec) (call_request i n) =
     Inr \<lparr> ctp_Name = n, ctp_Arguments = Some [] \<rparr>"
  by (simp add: call_request_def NewRequest_def UnmarshalParams_def sample_codec_def)

lemma initialized_notification:
  "IsNotification (NewNotification ''initialized'' VNil)
   \<and> msg_Method (NewNotification ''initialized'' VNil) = ''initialized''"
  by (simp add: IsNotification_def NewNotification_def)

lemma map_of_update_same: "map_of (AList.update k v al) k = Some v"
  by (simp add: update_conv)

lemma distinct_update_keys:
  "distinct (map fst al) \<Longrightarrow> distinct (map fst (AList.update k v al))"
  by (simp add: distinct_update)

section \<open>Message classification\<close>

text \<open>
  C4. For every message exactly one of is-request, is-notification, is-response and
  none-of-the-above holds; a message is a request iff it has a method and an id, a
  notification iff it has a method and no id, a response iff it has no method and an id.
  (The method is present when the string is not empty, the id when it is not nil.)
\<close>

theorem C4_classification_exclusive:
  "holding [IsRequest m, IsNotification m, IsResponse m,
            \<not> (IsRequest m \<or> IsNotification m \<or> IsResponse m)] = 1
   \<and> (IsRequest m \<longleftrightarrow> msg_Method m \<noteq> '''' \<and> msg_ID m \<noteq> VNil)
   \<and> (IsNotification m \<longleftrightarrow> msg_Method m \<noteq> '''' \<and> msg_ID m = VNil)
   \<and> (IsResponse m \<longleftrightarrow> msg_Method m = '''' \<and> msg_ID m \<noteq> VNil)"
  by (auto simp: holding_def IsRequest_def IsNotification_def IsResponse_def)

text \<open>C4 on the request \<open>tools/call\<close> with id "1": it is a request and nothing else.\<close>

theorem C4_classification_exclusive_witness:
  "holding [IsRequest (call_request ''1'' ''echo''), IsNotification (call_request ''1'' ''echo''),
            IsResponse (call_request ''1'' ''echo''),
            \<not> (IsRequest (call_request ''1'' ''echo'') \<or> IsNotification (call_request ''1'' ''echo'')
               \<or> IsResponse (call_request ''1'' ''echo''))] = 1
   \<and> IsRequest (call_request ''1'' ''echo'')
   \<and> \<not> IsNotification (call_request ''1'' ''echo'')
   \<and> \<not> IsResponse (call_request ''1'' ''echo'')"
  using C4_classification_exclusive [of "call_request ''1'' ''echo''"]
  by (simp add: call_request_ID call_request_Method holding_def)

section \<open>Notifications\<close>

text \<open>
  C9. In every session state, handling a notification (a message with a method and no
  id) produces no response message, whatever its method is.
\<close>

theorem C9_notification_no_response:
  "IsNotification m \<Longrightarrow> snd (HandleMessage js h (Some m)) = None"
  by (auto simp: HandleMessage_def handleNotification_def IsRequest_def IsNotification_def)

text \<open>C9 on the notification \<open>initialized\<close>, sent to a session that is not ready.\<close>

theorem C9_notification_no_response_witness:
  "IsNotification (NewNotification ''initialized'' VNil)
   \<and> snd (HandleMessage sample_codec sample_handler
            (Some (NewNotification ''initialized'' VNil))) = None"
proof -
  have n: "IsNotification (NewNotification ''initialized'' VNil)"
    by (simp add: initialized_notification)
  show ?thesis
    using n C9_notification_no_response [OF n, of sample_codec sample_handler] by simp
qed

section \<open>Tool calls\<close>



text \<open>
  C1, as stated, fails: in the ready session below, the request of Scenario D (a call of
  the tool "nonexistent", which is not in the tool table) gets an error response whose
  code is -32603, not the tool-not-found code -32003.
\<close>

theorem C1_tool_not_found_code_counterexample:
  "IsRequest (call_request ''3'' ''nonexistent'')
   \<and> msg_Method (call_request ''3'' ''nonexistent'') = ''tools/call''
   \<and> initialized ready_handler
   \<and> map_of (tools ready_handler) ''nonexistent'' = None
   \<and> response_code (snd (HandleMessage sample_codec ready_handler
                            (Some (call_request ''3'' ''nonexistent'')))) = Some (- 32603)
   \<and> response_code (snd (HandleMessage sample_codec ready_handler
                            (Some (call_request ''3'' ''nonexistent'')))) \<noteq> Some ToolNotFound"
  by (simp add: HandleMessage_tools_call [OF call_request_IsRequest call_request_Method
        call_request_decodes]
      call_request_IsRequest call_request_Method response_code_def CallTool_def
      ready_handler_def sample_handler_def NewBaseHandler_def NewErrorResponse_def
      InternalError_def ToolNotFound_def)

text \<open>
  C1, amended. In a ready session, a \<open>tools/call\<close> request whose params decode and name
  a tool that is not in the tool table gets an error response with the internal-error
  code -32603 and the message "tool call failed"; the text "tool '<name>' not found" is
  the data of the error.
\<close>

theorem C1_unknown_tool_internal_error:
  assumes "IsRequest m" "msg_Method m = ''tools/call''"
    "UnmarshalParams (dec_CallToolParams js) m = Inr p"
    "initialized h" "map_of (tools h) (ctp_Name p) = None"
  shows "snd (HandleMessage js h (Some m)) =
      Some (NewErrorResponse (msg_ID m) InternalError ''tool call failed''
             (VString (''tool '' @ quoted (ctp_Name p) @ '' not found'')))
    \<and> response_code (snd (HandleMessage js h (Some m))) = Some (- 32603)"
  using assms(4,5)
  by (simp add: HandleMessage_tools_call [OF assms(1,2,3)] CallTool_def response_code_def
       NewErrorResponse_def InternalError_def)

text \<open>The amended C1 on the request of Scenario D.\<close>

theorem C1_unknown_tool_internal_error_witness:
  "snd (HandleMessage sample_codec ready_handler (Some (call_request ''3'' ''nonexistent''))) =
      Some (NewErrorResponse (VString ''3'') InternalError ''tool call failed''
             (VString (''tool '' @ quoted ''nonexistent'' @ '' not found'')))
    \<and> response_code (snd (HandleMessage sample_codec ready_handler
                             (Some (call_request ''3'' ''nonexistent'')))) = Some (- 32603)"
proof -
  have a: "initialized ready_handler"
    by (simp add: ready_handler_def)
  have b: "map_of (tools ready_handler)
             (ctp_Name \<lparr> ctp_Name = ''nonexistent'', ctp_Arguments = Some [] \<rparr>) = None"
    by (simp add: ready_handler_def sample_handler_def NewBaseHandler_def)
  show ?thesis
    using C1_unknown_tool_internal_error [OF call_request_IsRequest call_request_Method
        call_request_decodes a b, of "''3''"]
    by (simp add: call_request_ID response_code_def NewErrorResponse_def InternalError_def)
qed



section \<open>Registration\<close>

text \<open>
  C10. When the tool table of the dispatcher already holds a handler under a name,
  registering a second handler that declares the same non-empty name returns no error
  and puts the second handler under that name; in a ready session a later call of that
  name runs the execute operation of the second handler.
\<close>

theorem C10_RegisterTool_replaces:
  assumes "th_Definition handler2 = Some tool" "tool_Name tool \<noteq> ''''"
    "map_of (tools h) (tool_Name tool) = Some handler1"
  shows "fst (RegisterTool h handler2) = None
    \<and> map_of (tools (snd (RegisterTool h handler2))) (tool_Name tool) = Some handler2
    \<and> (initialized h \<longrightarrow>
         CallTool (snd (RegisterTool h handler2))
           \<lparr> ctp_Name = tool_Name tool, ctp_Arguments = args \<rparr> =
           (case th_Execute handler2 args of
              Inl err \<Rightarrow> Inr (Some \<lparr> ctr_Content =
                                  [\<lparr> content_Type = ''text'',
                                     content_Text = ''Tool execution failed: '' @ err,
                                     content_Data = '''', content_MimeType = '''',
                                     content_Blob = VNil \<rparr>],
                                ctr_IsError = True \<rparr>)
            | Inr result \<Rightarrow> Inr result))"
  using assms by (simp add: RegisterTool_def CallTool_def map_of_update_same)

text \<open>
  C10 on a ready session that holds the tool "echo": a second handler of that name is
  registered, and a call of "echo" returns the result of the second handler.
\<close>

theorem C10_RegisterTool_replaces_witness:
  "fst (RegisterTool ready_handler echo_tool2) = None
   \<and> map_of (tools (snd (RegisterTool ready_handler echo_tool2))) ''echo'' = Some echo_tool2
   \<and> CallTool (snd (RegisterTool ready_handler echo_tool2))
        \<lparr> ctp_Name = ''echo'', ctp_Arguments = None \<rparr> =
      Inr (Some (text_result ''echo echo'' False))"
proof -
  have a: "th_Definition echo_tool2 =
             Some \<lparr> tool_Name = ''echo'', tool_Description = ''echoes twice'',
                    tool_InputSchema = sample_schema \<rparr>"
    by (simp add: echo_tool2_def)
  have b: "tool_Name \<lparr> tool_Name = ''echo'', tool_Description = ''echoes twice'',
                       tool_InputSchema = sample_schema \<rparr> \<noteq> ''''"
    by simp
  have c: "map_of (tools ready_handler)
             (tool_Name \<lparr> tool_Name = ''echo'', tool_Description = ''echoes twice'',
                          tool_InputSchema = sample_schema \<rparr>) = Some echo_tool"
    by (simp add: ready_handler_def sample_handler_def NewBaseHandler_def)
  have d: "initialized ready_handler"
    by (simp add: ready_handler_def)
  have e: "th_Execute echo_tool2 None = Inr (Some (text_result ''echo echo'' False))"
    by (simp add: echo_tool2_def)
  show ?thesis
    using C10_RegisterTool_replaces [OF a b c, of None] d e by simp
qed

text \<open>
  C2, as stated, fails for the tool table of the dispatcher: \<open>RegisterTool\<close> with a
  handler whose name "echo" is already in the table returns no error, and the table
  then holds the new handler under that name.
\<close>

theorem C2_duplicate_rejected_counterexample:
  "th_Definition echo_tool2 =
     Some \<lparr> tool_Name = ''echo'', tool_Description = ''echoes twice'',
            tool_InputSchema = sample_schema \<rparr>
   \<and> map_of (tools sample_handler) ''echo'' = Some echo_tool
   \<and> fst (RegisterTool sample_handler echo_tool2) = None
   \<and> map_of (tools (snd (RegisterTool sample_handler echo_tool2))) ''echo'' = Some echo_tool2
   \<and> th_Definition echo_tool2 \<noteq> th_Definition echo_tool"
  by (simp add: RegisterTool_def echo_tool2_def echo_tool_def sample_handler_def
       NewBaseHandler_def)

text \<open>
  C2, amended. In the tool registry and in the prompt registry, \<open>Register\<close> with a
  handler whose declared name is empty or already present fails and leaves the map as it
  was, and a map with distinct names has distinct names after any \<open>Register\<close>. The
  dispatcher's \<open>RegisterTool\<close> fails, leaving the handler as it was, when the declared
  name is empty.
\<close>

theorem C2_Register_rejects_duplicates:
  "(th_Definition th = Some tool \<and> (tool_Name tool = '''' \<or> map_of tr (tool_Name tool) \<noteq> None)
      \<longrightarrow> fst (tools_Register tr th) \<noteq> None \<and> snd (tools_Register tr th) = tr)
   \<and> (ph_Definition ph = Some prompt
        \<and> (prompt_Name prompt = '''' \<or> map_of pr (prompt_Name prompt) \<noteq> None)
      \<longrightarrow> fst (prompts_Register pr ph) \<noteq> None \<and> snd (prompts_Register pr ph) = pr)
   \<and> (distinct (map fst tr) \<longrightarrow> distinct (map fst (snd (tools_Register tr th))))
   \<and> (distinct (map fst pr) \<longrightarrow> distinct (map fst (snd (prompts_Register pr ph))))
   \<and> (th_Definition th0 = Some tool0 \<and> tool_Name tool0 = ''''
      \<longrightarrow> fst (RegisterTool h th0) \<noteq> None \<and> snd (RegisterTool h th0) = h)"
  by (auto simp: tools_Register_def prompts_Register_def RegisterTool_def
       distinct_update_keys split: option.splits)

text \<open>
  The amended C2 on a tool registry that holds "echo" and a prompt registry that holds
  "summary", each given a handler of the name it holds, and on the dispatcher given a
  tool without a name.
\<close>

theorem C2_Register_rejects_duplicates_witness:
  "fst (tools_Register [(''echo'', echo_tool)] echo_tool2) \<noteq> None
   \<and> snd (tools_Register [(''echo'', echo_tool)] echo_tool2) = [(''echo'', echo_tool)]
   \<and> fst (prompts_Register [(''summary'', sample_prompt)] sample_prompt) \<noteq> None
   \<and> snd (prompts_Register [(''summary'', sample_prompt)] sample_prompt) =
       [(''summary'', sample_prompt)]
   \<and> distinct (map fst (snd (tools_Register [(''echo'', echo_tool)] echo_tool2)))
   \<and> distinct (map fst (snd (prompts_Register [(''summary'', sample_prompt)] sample_prompt)))
   \<and> fst (RegisterTool sample_handler unnamed_tool) \<noteq> None
   \<and> snd (RegisterTool sample_handler unnamed_tool) = sample_handler"
  using C2_Register_rejects_duplicates [of echo_tool2
      "\<lparr> tool_Name = ''echo'', tool_Description = ''echoes twice'',
         tool_InputSchema = sample_schema \<rparr>"
      "[(''echo'', echo_tool)]" sample_prompt
      "\<lparr> prompt_Name = ''summary'', prompt_Description = '''', prompt_Arguments = [] \<rparr>"
      "[(''summary'', sample_prompt)]" unnamed_tool
      "\<lparr> tool_Name = '''', tool_Description = ''no name'', tool_InputSchema = sample_schema \<rparr>"
      sample_handler]
  by (simp add: echo_tool2_def sample_prompt_def unnamed_tool_def)

section \<open>Facts about the validator shared by the statements below\<close>

lemma and_then_None_iff: "and_then a b = None \<longleftrightarrow> a = None \<and> b = None"
  by (cases a) (simp_all add: and_then_def)

lemma and_then_fails: "a \<noteq> None \<or> b \<noteq> None \<Longrightarrow> and_then a b \<noteq> None"
  by (simp add: and_then_None_iff)

lemma first_error_fails:
  "x \<in> set xs \<Longrightarrow> f x \<noteq> None \<Longrightarrow> first_error f xs \<noteq> None"
  by (induction xs) (auto split: option.splits)

lemma first_error_Some_elem:
  "first_error f xs = Some e \<Longrightarrow> \<exists>x \<in> set xs. f x = Some e"
  by (induction xs) (auto split: option.splits)

lemma ValidateToolSchema_property:
  assumes "map_of (properties_of schema) k = Some v" "validateProperty k v \<noteq> None"
  shows "ValidateToolSchema schema \<noteq> None"
proof -
  have "(k, v) \<in> set (properties_of schema)"
    using assms(1) by (rule map_of_SomeD)
  then have "first_error
           (\<lambda>(propName, propDef).
               case validateProperty propName propDef of
                 Some err \<Rightarrow> Some (InvalidProperty propName err)
               | None \<Rightarrow> None)
           (properties_of schema) \<noteq> None"
    using assms(2) by (intro first_error_fails [where x = "(k, v)"]) auto
  then show ?thesis
    by (simp add: ValidateToolSchema_def and_then_fails del: not_None_eq)
qed

lemma search_schema_valid: "ValidateToolSchema search_schema = None"
  by (simp add: ValidateToolSchema_def search_schema_def properties_of_def and_then_def
      validateProperty_def validTypes_def validateStringProperty_def nonnegative_number_def
      validateNumericProperty_def numeric_bound_def limit_property_def f64_gt_def
      boolean_or_number_def)

lemma limit_property_type: "map_of limit_property ''type'' = Some (VString ''integer'')"
  by (simp add: limit_property_def)

subsection \<open>The conversions between float64 and int64\<close>

lemma int64_of_float64_range:
  "- (2 ^ 63) \<le> int64_of_float64 conv v \<and> int64_of_float64 conv v < 2 ^ 63"
proof -
  have "- (2 ^ 63) \<le> sint w \<and> sint w < 2 ^ 63" for w :: "64 word"
    using sint_ge [of w] sint_lt [of w] by simp
  then show ?thesis
    by (cases v) (auto simp: Let_def)
qed

lemma truncate_rat_of_int: "truncate_rat (of_int n) = n"
  by (simp add: truncate_rat_def)

text \<open>No \<open>int64\<close> is rounded to a \<open>float64\<close> beyond \<open>2 ^ 63\<close> in absolute value.\<close>

lemma f64_round_bound:
  assumes "\<bar>n\<bar> \<le> 2 ^ 63"
  shows "\<bar>f64_round n\<bar> \<le> 2 ^ 63"
proof (cases "n = 0")
  case True
  then show ?thesis by (simp add: f64_round_def)
next
  case False
  define a where "a = \<bar>n\<bar>"
  define e where "e = nat (bitlen a - 53)"
  define q where "q = a div 2 ^ e"
  define r where "r = a mod 2 ^ e"
  define q' where "q' = (if 2 * r > 2 ^ e \<or> (2 * r = 2 ^ e \<and> odd q) then q + 1 else q)"
  have apos: "0 < a" using False by (simp add: a_def)
  have a63: "a \<le> 2 ^ 63" using assms by (simp add: a_def)
  have fr: "f64_round n = sgn n * (q' * 2 ^ e)"
    by (simp add: f64_round_def Let_def a_def e_def q_def r_def q'_def)
  have q'nonneg: "0 \<le> q'" using apos by (simp add: q'_def q_def pos_imp_zdiv_nonneg_iff)
  have abs_eq: "\<bar>f64_round n\<bar> = q' * 2 ^ e"
    using False q'nonneg by (simp add: fr abs_mult abs_sgn_eq)
  have bl: "2 ^ nat (bitlen a - 1) \<le> a" "a < 2 ^ nat (bitlen a)"
    using bitlen_bounds [OF apos] by simp_all
  show ?thesis
  proof (cases "bitlen a \<le> 53")
    case True
    then have "e = 0" by (simp add: e_def)
    then have "q' = a" by (simp add: q'_def q_def r_def)
    with \<open>e = 0\<close> a63 show ?thesis by (simp add: abs_eq)
  next
    case big: False
    have nb: "nat (bitlen a) = 53 + e" using big by (simp add: e_def)
    have qlt: "q < 2 ^ 53"
    proof -
      have "q * 2 ^ e \<le> a"
      proof -
        have "a div 2 ^ e * 2 ^ e + a mod 2 ^ e = a" by (rule div_mult_mod_eq)
        moreover have "0 \<le> a mod 2 ^ e" by simp
        ultimately show ?thesis unfolding q_def by linarith
      qed
      also have "a < 2 ^ 53 * 2 ^ e" using bl(2) by (simp add: nb power_add)
      finally have "q * 2 ^ e < 2 ^ 53 * 2 ^ e" .
      then show ?thesis by (simp only: mult_less_cancel_right) simp
    qed
    show ?thesis
    proof (cases "a = 2 ^ 63")
      case True
      have "bitlen (2 ^ 63) = 64" by code_simp
      then have "bitlen a = 64" using True by simp
      then have "e = 11" by (simp add: e_def)
      then have "q' = 2 ^ 52" using True by (simp add: q'_def q_def r_def)
      with \<open>e = 11\<close> show ?thesis by (simp add: abs_eq)
    next
      case False
      with a63 have "a < 2 ^ 63" by simp
      have "bitlen a \<le> 63"
      proof (rule ccontr)
        assume "\<not> bitlen a \<le> 63"
        then have "63 \<le> nat (bitlen a - 1)" by simp
        then have "(2::int) ^ 63 \<le> 2 ^ nat (bitlen a - 1)"
          by (rule power_increasing) simp
        with bl(1) \<open>a < 2 ^ 63\<close> show False by simp
      qed
      then have "53 + e \<le> 63" using nb by simp
      have "q' \<le> q + 1" by (simp add: q'_def)
      then have "q' \<le> 2 ^ 53" using qlt by simp
      then have "q' * 2 ^ e \<le> 2 ^ 53 * 2 ^ e"
        by (simp add: mult_right_mono)
      also have "\<dots> = 2 ^ (53 + e)" by (simp add: power_add)
      also have "\<dots> \<le> (2::int) ^ 63"
        using \<open>53 + e \<le> 63\<close> by (intro power_increasing) simp_all
      finally show ?thesis by (simp add: abs_eq)
    qed
  qed
qed

lemma integer_check_fraction:
  assumes "frac x \<noteq> 0"
  shows "f64_ne (Finite x) (float64_of_int k)"
proof -
  have "x \<notin> \<int>" using assms by (simp add: frac_eq_0_iff)
  then have "x \<noteq> of_int (f64_round k)" by auto
  then show ?thesis by (simp add: f64_ne_def float64_of_int_def)
qed

lemma integer_check_out_of_range:
  assumes "2 ^ 63 < z \<or> z < - (2 ^ 63)" "- (2 ^ 63) \<le> k" "k < 2 ^ 63"
  shows "f64_ne (Finite z) (float64_of_int k)"
proof -
  have "\<bar>k\<bar> \<le> 2 ^ 63" using assms(2,3) by simp
  then have "\<bar>f64_round k\<bar> \<le> 2 ^ 63" by (rule f64_round_bound)
  then have "\<bar>(of_int (f64_round k) :: rat)\<bar> \<le> of_int (2 ^ 63)"
    by (simp only: of_int_abs [symmetric] of_int_le_iff)
  then have "\<bar>(of_int (f64_round k) :: rat)\<bar> \<le> 2 ^ 63" by simp
  moreover have "2 ^ 63 < \<bar>z\<bar>" using assms(1) by auto
  ultimately have "z \<noteq> of_int (f64_round k)" by auto
  then show ?thesis by (simp add: f64_ne_def float64_of_int_def)
qed

lemma integer_check_in_range:
  assumes "- (2 ^ 63) \<le> n" "n < 2 ^ 63" "f64_round n = n"
  shows "\<not> f64_ne (Finite (of_int n))
            (float64_of_int (int64_of_float64 conv (Finite (of_int n))))"
  using assms by (simp add: f64_ne_def float64_of_int_def truncate_rat_of_int)

lemma validateParameterValue_integer_float:
  assumes "map_of pm ''type'' = Some (VString ''integer'')"
  shows "validateParameterValue conv name (VFloat v) (VMap pm) =
     (if f64_ne v (float64_of_int (int64_of_float64 conv v))
      then Some (ParameterMustBeIntegerGotFloat name v)
      else validateNumberValue name v pm)"
  using assms by (simp add: validateParameterValue_def)

lemma validateNumberValue_bounds:
  assumes "map_of pm ''minimum'' = Some (VFloat (Finite lo))"
    "map_of pm ''maximum'' = Some (VFloat (Finite hi))"
  shows "validateNumberValue name (Finite y) pm = None \<longleftrightarrow> lo \<le> y \<and> y \<le> hi"
  using assms by (auto simp: validateNumberValue_def and_then_def f64_gt_def)

section \<open>Schema validation\<close>

text \<open>
  C6. \<open>ValidateToolSchema\<close> returns an error when the type of the schema is not
  "object"; when its property map is nil or empty; when a required name is not a key of
  the property map; when a property declares a type that is not one of the six kinds;
  and when a property of kind number or integer declares a minimum greater than its
  maximum.
\<close>

theorem C6_ValidateToolSchema_rejects:
  "(schema_Type s1 \<noteq> ''object'' \<longrightarrow> ValidateToolSchema s1 \<noteq> None)
   \<and> (schema_Properties s2 = None \<or> schema_Properties s2 = Some [] \<longrightarrow>
        ValidateToolSchema s2 \<noteq> None)
   \<and> (r \<in> set (schema_Required s3) \<and> map_of (properties_of s3) r = None \<longrightarrow>
        ValidateToolSchema s3 \<noteq> None)
   \<and> (map_of (properties_of s4) k = Some (VMap pm) \<and> map_of pm ''type'' = Some (VString t)
        \<and> t \<notin> set validTypes \<longrightarrow> ValidateToolSchema s4 \<noteq> None)
   \<and> (map_of (properties_of s5) k' = Some (VMap pm')
        \<and> (map_of pm' ''type'' = Some (VString ''number'')
           \<or> map_of pm' ''type'' = Some (VString ''integer''))
        \<and> map_of pm' ''minimum'' = Some (VFloat lo) \<and> map_of pm' ''maximum'' = Some (VFloat hi)
        \<and> f64_gt lo hi \<longrightarrow> ValidateToolSchema s5 \<noteq> None)"
proof (intro conjI impI)
  show "ValidateToolSchema s1 \<noteq> None" if "schema_Type s1 \<noteq> ''object''"
    using that by (simp add: ValidateToolSchema_def)
  show "ValidateToolSchema s2 \<noteq> None"
    if "schema_Properties s2 = None \<or> schema_Properties s2 = Some []"
    using that by (auto simp: ValidateToolSchema_def properties_of_def)
  show "ValidateToolSchema s3 \<noteq> None"
    if h: "r \<in> set (schema_Required s3) \<and> map_of (properties_of s3) r = None"
  proof -
    have "first_error (\<lambda>required. if map_of (properties_of s3) required = None
                        then Some (RequiredPropertyNotFound required) else None)
           (schema_Required s3) \<noteq> None"
      using h by (intro first_error_fails [where x = r]) auto
    then show ?thesis
      by (simp add: ValidateToolSchema_def and_then_fails del: not_None_eq)
  qed
  show "ValidateToolSchema s4 \<noteq> None"
    if h: "map_of (properties_of s4) k = Some (VMap pm) \<and> map_of pm ''type'' = Some (VString t)
        \<and> t \<notin> set validTypes"
  proof -
    have "validateProperty k (VMap pm) \<noteq> None"
      using h by (simp add: validateProperty_def)
    moreover have "map_of (properties_of s4) k = Some (VMap pm)"
      using h by simp
    ultimately show ?thesis by (rule ValidateToolSchema_property [rotated])
  qed
  show "ValidateToolSchema s5 \<noteq> None"
    if h: "map_of (properties_of s5) k' = Some (VMap pm')
        \<and> (map_of pm' ''type'' = Some (VString ''number'')
           \<or> map_of pm' ''type'' = Some (VString ''integer''))
        \<and> map_of pm' ''minimum'' = Some (VFloat lo) \<and> map_of pm' ''maximum'' = Some (VFloat hi)
        \<and> f64_gt lo hi"
  proof -
    have "validateNumericProperty pm' \<noteq> None"
      using h by (simp add: validateNumericProperty_def numeric_bound_def and_then_def)
    then have "validateProperty k' (VMap pm') \<noteq> None"
      using h by (auto simp: validateProperty_def validTypes_def)
    moreover have "map_of (properties_of s5) k' = Some (VMap pm')"
      using h by simp
    ultimately show ?thesis by (rule ValidateToolSchema_property [rotated])
  qed
qed

text \<open>
  C6 on five variants of a valid schema: the type "array"; an empty property map; the
  required name "page", which is not a property; a property of type "text"; a property
  "limit" of kind integer with minimum 10 and maximum 1.
\<close>

theorem C6_ValidateToolSchema_rejects_witness:
  "ValidateToolSchema (search_schema \<lparr> schema_Type := ''array'' \<rparr>) \<noteq> None
   \<and> ValidateToolSchema (search_schema \<lparr> schema_Properties := Some [] \<rparr>) \<noteq> None
   \<and> ValidateToolSchema (search_schema \<lparr> schema_Required := [''query'', ''page''] \<rparr>) \<noteq> None
   \<and> ValidateToolSchema
        (search_schema \<lparr> schema_Properties :=
           Some [(''query'', VMap [(''type'', VString ''text'')])] \<rparr>) \<noteq> None
   \<and> ValidateToolSchema
        (search_schema \<lparr> schema_Properties :=
           Some [(''query'', VMap [(''type'', VString ''string'')]),
                 (''limit'', VMap [(''type'', VString ''integer''),
                                   (''minimum'', VFloat (Finite 10)),
                                   (''maximum'', VFloat (Finite 1))])] \<rparr>) \<noteq> None"
  using C6_ValidateToolSchema_rejects
    [where ?s1.0 = "search_schema \<lparr> schema_Type := ''array'' \<rparr>"
      and ?s2.0 = "search_schema \<lparr> schema_Properties := Some [] \<rparr>"
      and ?s3.0 = "search_schema \<lparr> schema_Required := [''query'', ''page''] \<rparr>"
      and r = "''page''"
      and ?s4.0 = "search_schema \<lparr> schema_Properties :=
           Some [(''query'', VMap [(''type'', VString ''text'')])] \<rparr>"
      and k = "''query''" and pm = "[(''type'', VString ''text'')]" and t = "''text''"
      and ?s5.0 = "search_schema \<lparr> schema_Properties :=
           Some [(''query'', VMap [(''type'', VString ''string'')]),
                 (''limit'', VMap [(''type'', VString ''integer''),
                                   (''minimum'', VFloat (Finite 10)),
                                   (''maximum'', VFloat (Finite 1))])] \<rparr>"
      and k' = "''limit''"
      and pm' = "[(''type'', VString ''integer''), (''minimum'', VFloat (Finite 10)),
                  (''maximum'', VFloat (Finite 1))]"
      and lo = "Finite 10" and hi = "Finite 1"]
  by (simp add: search_schema_def properties_of_def validTypes_def f64_gt_def
       del: not_None_eq)

section \<open>Argument validation\<close>

text \<open>
  C5. For a schema that \<open>ValidateToolSchema\<close> accepts and every argument map:
  when a name of the required list is absent from the arguments,
  \<open>ValidateToolParameters\<close> returns the error that names a missing required parameter;
  when a name present in the arguments is not a key of the schema's properties,
  \<open>ValidateToolParameters\<close> does not accept (it ends with an error, that of the
  unknown name or of an argument visited before it, or with a panic): the unknown
  argument is not ignored.
\<close>

theorem C5_ValidateToolParameters_rejects:
  assumes "ValidateToolSchema schema = None"
  shows "(r \<in> set (schema_Required schema) \<and> map_of (arguments_of params) r = None \<longrightarrow>
            (\<exists>r' \<in> set (schema_Required schema). map_of (arguments_of params) r' = None
               \<and> ValidateToolParameters conv params schema =
                   Some (RequiredParameterMissing r')))
   \<and> (map_of (arguments_of params') k = Some v \<and> map_of (properties_of schema) k = None \<longrightarrow>
            ValidateToolParameters conv params' schema \<noteq> None)"
proof (intro conjI impI)
  let ?f = "\<lambda>ps required. if map_of ps required = None
                                then Some (RequiredParameterMissing required) else None"
  let ?g = "\<lambda>(paramName, paramValue).
                       case map_of (properties_of schema) paramName of
                         None \<Rightarrow> Some (UnknownParameter paramName)
                       | Some propDef \<Rightarrow>
                           validateParameterValue conv paramName paramValue propDef"
  have unfold: "ValidateToolParameters conv p schema =
      and_then (first_error (?f (arguments_of p)) (schema_Required schema))
               (first_error ?g (arguments_of p))" for p
    using assms by (simp add: ValidateToolParameters_def Let_def)
  show "\<exists>r' \<in> set (schema_Required schema). map_of (arguments_of params) r' = None
               \<and> ValidateToolParameters conv params schema = Some (RequiredParameterMissing r')"
    if h: "r \<in> set (schema_Required schema) \<and> map_of (arguments_of params) r = None"
  proof -
    have "first_error (?f (arguments_of params)) (schema_Required schema) \<noteq> None"
      using h by (intro first_error_fails [where x = r]) auto
    then obtain e
      where e: "first_error (?f (arguments_of params)) (schema_Required schema) = Some e"
      by blast
    then obtain r'
      where "r' \<in> set (schema_Required schema)" "?f (arguments_of params) r' = Some e"
      using first_error_Some_elem by fastforce
    then have "r' \<in> set (schema_Required schema) \<and> map_of (arguments_of params) r' = None
        \<and> e = RequiredParameterMissing r'"
      by (auto split: if_splits)
    then show ?thesis
      using e by (auto simp: unfold and_then_def)
  qed
  show "ValidateToolParameters conv params' schema \<noteq> None"
    if h: "map_of (arguments_of params') k = Some v \<and> map_of (properties_of schema) k = None"
  proof -
    have "(k, v) \<in> set (arguments_of params')"
      using h by (auto dest: map_of_SomeD)
    then have "first_error ?g (arguments_of params') \<noteq> None"
      using h by (intro first_error_fails [where x = "(k, v)"]) auto
    then show ?thesis
      by (simp add: unfold and_then_fails del: not_None_eq)
  qed
qed

text \<open>
  C5 on the schema that requires "query" and also declares "limit": the empty argument
  map is refused with "query" missing (Scenario E), and the arguments "query" and
  "page" are refused, "page" not being declared.
\<close>

theorem C5_ValidateToolParameters_rejects_witness:
  "ValidateToolSchema search_schema = None
   \<and> ValidateToolParameters amd64_conv (Some []) search_schema =
       Some (RequiredParameterMissing ''query'')
   \<and> ValidateToolParameters amd64_conv
        (Some [(''query'', VString ''go''), (''page'', VFloat (Finite 2))]) search_schema \<noteq> None"
proof -
  have a: "''query'' \<in> set (schema_Required search_schema)
           \<and> map_of (arguments_of (Some [])) ''query'' = None"
    by (simp add: search_schema_def arguments_of_def)
  have b: "map_of (arguments_of (Some [(''query'', VString ''go''), (''page'', VFloat (Finite 2))]))
             ''page'' = Some (VFloat (Finite 2))
           \<and> map_of (properties_of search_schema) ''page'' = None"
    by (simp add: search_schema_def arguments_of_def properties_of_def)
  have c: "schema_Required search_schema = [''query'']"
    by (simp add: search_schema_def)
  show ?thesis
    using C5_ValidateToolParameters_rejects [OF search_schema_valid,
        of "''query''" "Some []" amd64_conv
           "Some [(''query'', VString ''go''), (''page'', VFloat (Finite 2))]"
           "''page''" "VFloat (Finite 2)"]
      a b search_schema_valid
    by (simp add: c del: not_None_eq)
qed

section \<open>Values of kind integer\<close>

text \<open>
  C8, as stated, fails: the \<open>float64\<close> value \<open>2 ^ 64\<close> has no fractional part, and
  the validator, under the conversion of amd64, refuses it for a property of kind
  "integer" as not being an integer.
\<close>

theorem C8_integral_float_refused_counterexample:
  "frac (2 ^ 64 :: rat) = 0
   \<and> f64_round (2 ^ 64) = 2 ^ 64
   \<and> validateParameterValue amd64_conv ''limit'' (VFloat (Finite (2 ^ 64)))
        (VMap [(''type'', VString ''integer'')]) =
      Some (ParameterMustBeIntegerGotFloat ''limit'' (Finite (2 ^ 64)))"
proof (intro conjI)
  show "frac (2 ^ 64 :: rat) = 0" by simp
  show "f64_round (2 ^ 64) = 2 ^ 64" by code_simp
  show "validateParameterValue amd64_conv ''limit'' (VFloat (Finite (2 ^ 64)))
        (VMap [(''type'', VString ''integer'')]) =
      Some (ParameterMustBeIntegerGotFloat ''limit'' (Finite (2 ^ 64)))"
    by code_simp
qed

text \<open>
  C8, amended. For a property of kind "integer" and every choice of the conversion out
  of range: a finite float with a fractional part is refused as not an integer; a float
  without fractional part that lies in the range of \<open>int64\<close>, from \<open>- 2 ^ 63\<close> up to
  but not including \<open>2 ^ 63\<close>, passes the type check and goes on to the bounds check; a
  value of type \<open>int\<close> always passes the type check and goes on to the bounds check as a
  float; the bounds check with a finite minimum and maximum accepts exactly the values
  from the minimum to the maximum, both included; a float above \<open>2 ^ 63\<close> or below
  \<open>- 2 ^ 63\<close> is refused as not an integer.
\<close>

theorem C8_integer_kind:
  assumes "map_of pm ''type'' = Some (VString ''integer'')"
  shows "(frac x \<noteq> 0 \<longrightarrow>
           validateParameterValue conv name (VFloat (Finite x)) (VMap pm) =
             Some (ParameterMustBeIntegerGotFloat name (Finite x)))
   \<and> (- (2 ^ 63) \<le> n \<and> n < 2 ^ 63 \<and> f64_round n = n \<longrightarrow>
           validateParameterValue conv name (VFloat (Finite (of_int n))) (VMap pm) =
             validateNumberValue name (Finite (of_int n)) pm)
   \<and> validateParameterValue conv name (VInt i) (VMap pm) =
        validateNumberValue name (float64_of_int (sint i)) pm
   \<and> (map_of pm ''minimum'' = Some (VFloat (Finite lo))
        \<and> map_of pm ''maximum'' = Some (VFloat (Finite hi)) \<longrightarrow>
          (validateNumberValue name (Finite y) pm = None \<longleftrightarrow> lo \<le> y \<and> y \<le> hi))
   \<and> (2 ^ 63 < z \<or> z < - (2 ^ 63) \<longrightarrow>
           validateParameterValue conv name (VFloat (Finite z)) (VMap pm) =
             Some (ParameterMustBeIntegerGotFloat name (Finite z)))"
proof (intro conjI impI)
  show "validateParameterValue conv name (VFloat (Finite x)) (VMap pm) =
             Some (ParameterMustBeIntegerGotFloat name (Finite x))" if "frac x \<noteq> 0"
    using integer_check_fraction [OF that]
    by (simp add: validateParameterValue_integer_float [OF assms])
  show "validateParameterValue conv name (VFloat (Finite (of_int n))) (VMap pm) =
             validateNumberValue name (Finite (of_int n)) pm"
    if "- (2 ^ 63) \<le> n \<and> n < 2 ^ 63 \<and> f64_round n = n"
    using that integer_check_in_range [of n conv]
    by (simp add: validateParameterValue_integer_float [OF assms])
  show "validateParameterValue conv name (VInt i) (VMap pm) =
        validateNumberValue name (float64_of_int (sint i)) pm"
    using assms by (simp add: validateParameterValue_def)
  show "validateNumberValue name (Finite y) pm = None \<longleftrightarrow> lo \<le> y \<and> y \<le> hi"
    if "map_of pm ''minimum'' = Some (VFloat (Finite lo))
        \<and> map_of pm ''maximum'' = Some (VFloat (Finite hi))"
    using that validateNumberValue_bounds by blast
  show "validateParameterValue conv name (VFloat (Finite z)) (VMap pm) =
             Some (ParameterMustBeIntegerGotFloat name (Finite z))"
    if "2 ^ 63 < z \<or> z < - (2 ^ 63)"
    using integer_check_out_of_range [OF that, of "int64_of_float64 conv (Finite z)"]
      int64_of_float64_range [of conv "Finite z"]
    by (simp add: validateParameterValue_integer_float [OF assms])
qed

text \<open>
  The amended C8 on the property "limit" (integer, minimum 1, maximum 100): the float
  5/2 is refused, the float 100 and the int 1 are accepted (the bounds are inclusive),
  the float \<open>2 ^ 64\<close> is refused.
\<close>

theorem C8_integer_kind_witness:
  "validateParameterValue amd64_conv ''limit'' (VFloat (Finite (5 / 2))) (VMap limit_property) =
     Some (ParameterMustBeIntegerGotFloat ''limit'' (Finite (5 / 2)))
   \<and> validateParameterValue amd64_conv ''limit'' (VFloat (Finite 100)) (VMap limit_property) = None
   \<and> validateParameterValue amd64_conv ''limit'' (VInt 1) (VMap limit_property) = None
   \<and> validateNumberValue ''limit'' (Finite 100) limit_property = None
   \<and> validateParameterValue amd64_conv ''limit'' (VFloat (Finite (2 ^ 64)))
        (VMap limit_property) =
     Some (ParameterMustBeIntegerGotFloat ''limit'' (Finite (2 ^ 64)))"
proof -
  have a: "frac (5 / 2 :: rat) \<noteq> 0" by simp
  have b: "- (2 ^ 63) \<le> (100::int) \<and> (100::int) < 2 ^ 63 \<and> f64_round 100 = 100"
    by (simp, code_simp)
  have c: "map_of limit_property ''minimum'' = Some (VFloat (Finite 1))
        \<and> map_of limit_property ''maximum'' = Some (VFloat (Finite 100))"
    by (simp add: limit_property_def)
  have d: "(2 ^ 63 :: rat) < 2 ^ 64 \<or> (2 ^ 64 :: rat) < - (2 ^ 63)" by simp
  have e: "(1::rat) \<le> 100 \<and> (100::rat) \<le> 100" by simp
  have f: "float64_of_int (sint (1 :: 64 word)) = Finite 1"
    by (simp add: float64_of_int_def, code_simp)
  have g: "validateNumberValue ''limit'' (Finite 1) limit_property = None"
    by (simp add: validateNumberValue_def limit_property_def and_then_def f64_gt_def)
  show ?thesis
    using C8_integer_kind [OF limit_property_type,
        of "5 / 2" amd64_conv "''limit''" 100 1 1 100 100 "2 ^ 64"]
      a b c d e f g
    by simp
qed

end
